theory Spec2Isabelle
  imports Complex_Main "HOL-Library.Log_Nat"
begin

section \<open>JavaScript numbers\<close>

text \<open>
  The renderer and the main process compute with JavaScript numbers, which are IEEE 754
  doubles. A number is modelled as \<open>NaN\<close>, an infinity, or a finite value given as
  the rational it denotes. Comparisons and \<open>Math.max\<close> follow ECMAScript (every
  comparison with \<open>NaN\<close> is false, \<open>Math.max\<close> of a \<open>NaN\<close> is \<open>NaN\<close>) and are
  exact. A sum or a difference is the exact result rounded to the nearest double, ties to
  the even mantissa, and a decimal literal of the source denotes the double nearest to it.
  Negative zero is identified with zero.
\<close>

datatype jsnum = NaN | NInf | Fin rat | PInf

text \<open>
  Rounding a rational to the nearest double: \<open>e\<close> is the binary exponent of the value,
  \<open>u\<close> the exponent of the unit in the last place (53 bits of mantissa, and never
  below \<open>-1074\<close>, the unit of the subnormal numbers), \<open>n\<close> the mantissa after rounding;
  a value that rounds to \<open>2 ^ 1024\<close> or more is an infinity.
\<close>

definition pow2 :: "int \<Rightarrow> rat" where
  "pow2 k = (if k \<ge> 0 then 2 ^ nat k else 1 / 2 ^ nat (- k))"

definition round_half_even_div :: "int \<Rightarrow> int \<Rightarrow> int" where
  "round_half_even_div num den =
     (let n = num div den; r = num mod den
      in if 2 * r < den then n else if 2 * r > den then n + 1 else if even n then n else n + 1)"

definition round_double :: "rat \<Rightarrow> jsnum" where
  "round_double r =
     (case quotient_of r of (p0, q) \<Rightarrow>
        if p0 = 0 then Fin 0
        else
          (let p = \<bar>p0\<bar>;
               k = bitlen p - bitlen q;
               e = (if (if k \<ge> 0 then q * 2 ^ nat k \<le> p else q \<le> p * 2 ^ nat (- k))
                    then k else k - 1);
               u = max (e - 52) (- 1074);
               n = (if u \<ge> 0 then round_half_even_div p (q * 2 ^ nat u)
                    else round_half_even_div (p * 2 ^ nat (- u)) q)
           in if e \<ge> 1024 \<or> (e = 1023 \<and> n \<ge> 2 ^ 53) then (if p0 < 0 then NInf else PInf)
              else Fin (of_int (if p0 < 0 then - n else n) * pow2 u)))"

text \<open>A decimal literal of the source, as \<open>0.01\<close> or \<open>0.25\<close>.\<close>

definition js_lit :: "rat \<Rightarrow> jsnum" where
  "js_lit r = round_double r"

fun js_lt :: "jsnum \<Rightarrow> jsnum \<Rightarrow> bool" where
  "js_lt NaN b = False"
| "js_lt a NaN = False"
| "js_lt PInf b = False"
| "js_lt a NInf = False"
| "js_lt NInf b = True"
| "js_lt (Fin x) PInf = True"
| "js_lt (Fin x) (Fin y) = (x < y)"

fun js_le :: "jsnum \<Rightarrow> jsnum \<Rightarrow> bool" where
  "js_le NaN b = False"
| "js_le a NaN = False"
| "js_le NInf b = True"
| "js_le a PInf = True"
| "js_le PInf b = False"
| "js_le (Fin x) NInf = False"
| "js_le (Fin x) (Fin y) = (x \<le> y)"

definition js_ge :: "jsnum \<Rightarrow> jsnum \<Rightarrow> bool" where
  "js_ge a b = js_le b a"

fun js_add :: "jsnum \<Rightarrow> jsnum \<Rightarrow> jsnum" where
  "js_add NaN b = NaN"
| "js_add a NaN = NaN"
| "js_add PInf NInf = NaN"
| "js_add NInf PInf = NaN"
| "js_add PInf b = PInf"
| "js_add a PInf = PInf"
| "js_add NInf b = NInf"
| "js_add a NInf = NInf"
| "js_add (Fin x) (Fin y) = round_double (x + y)"




section \<open>Renderer: selection state (renderer.ts)\<close>

text \<open>
  A word element of the transcript pane: the \<open>data-index\<close> that \<open>renderTranscript\<close>
  stored on the span, and whether its class list holds \<open>selected\<close> and \<open>playhead\<close>.
\<close>

record word_el =
  data_index :: int
  selected :: bool
  playhead :: bool

text \<open>The renderer's globals that the selection code reads and writes, and the word nodes.\<close>

record renderer_state =
  selectionStart :: "int option"
  selectionEnd :: "int option"
  selectionAnchor :: "int option"
  playheadIndex :: int
  nodes :: "word_el list"

record index_range =
  range_start :: int
  range_end :: int

definition normalizeRange :: "int \<Rightarrow> int \<Rightarrow> index_range" where
  "normalizeRange a b =
     (if a \<le> b then \<lparr>range_start = a, range_end = b\<rparr>
      else \<lparr>range_start = b, range_end = a\<rparr>)"

text \<open>The body of the \<open>nodes.forEach\<close> callback of \<open>setSelectionRange\<close>.\<close>

definition toggle_selected :: "int option \<Rightarrow> int option \<Rightarrow> word_el \<Rightarrow> word_el" where
  "toggle_selected s e el =
     (let idx = data_index el;
          inRange = (case s of None \<Rightarrow> False
                     | Some lo \<Rightarrow> (case e of None \<Rightarrow> False
                                    | Some hi \<Rightarrow> idx \<ge> lo \<and> idx \<le> hi))
      in el\<lparr>selected := inRange\<rparr>)"

definition setSelectionRange :: "int option \<Rightarrow> int option \<Rightarrow> renderer_state \<Rightarrow> renderer_state" where
  "setSelectionRange start end' st =
     (let st1 = (case (start, end') of
                   (Some a, Some b) \<Rightarrow>
                     (let range = normalizeRange a b
                      in st\<lparr>selectionStart := Some (range_start range),
                             selectionEnd := Some (range_end range)\<rparr>)
                 | _ \<Rightarrow> st\<lparr>selectionStart := None, selectionEnd := None,
                            selectionAnchor := None\<rparr>)
      in st1\<lparr>nodes := map (toggle_selected (selectionStart st1) (selectionEnd st1)) (nodes st1)\<rparr>)"

section \<open>Renderer: playhead word lookup (renderer.ts, renderer.js)\<close>

record transcript_word =
  w_word :: string
  w_start :: jsnum
  w_end :: jsnum

text \<open>
  The linear scan of the \<open>timeupdate\<close> handler, from index \<open>i\<close> on: the index of the
  first word with \<open>te >= start && te < end\<close>, and \<open>-1\<close> when the loop ends without
  a \<open>break\<close>.
\<close>

fun scan_words :: "jsnum \<Rightarrow> transcript_word list \<Rightarrow> int \<Rightarrow> int" where
  "scan_words te [] i = -1"
| "scan_words te (w # ws) i =
     (if js_ge te (w_start w) \<and> js_lt te (w_end w) then i else scan_words te ws (i + 1))"

text \<open>The index that the \<open>timeupdate\<close> handler hands to \<open>setPlayheadIndex\<close>.\<close>

definition timeupdate_idx :: "jsnum \<Rightarrow> transcript_word list \<Rightarrow> int" where
  "timeupdate_idx t ws = (let te = js_add t (js_lit (1 / 100)) in scan_words te ws 0)"

text \<open>A word's span contains the biased time.\<close>

definition span_contains :: "jsnum \<Rightarrow> transcript_word \<Rightarrow> bool" where
  "span_contains te w = (js_le (w_start w) te \<and> js_lt te (w_end w))"

text \<open>
  The lookup as the specification words it, to compare the handler with:
  \<open>sourceTimeToActiveWord(sourceTime, bias)\<close> searches the word spans for the first one
  that contains the time advanced by the bias, which is an input set by the
  configuration. The result is the word's index, or \<open>-1\<close> for no word.
\<close>

fun first_index :: "('a \<Rightarrow> bool) \<Rightarrow> 'a list \<Rightarrow> nat option" where
  "first_index P [] = None"
| "first_index P (x # xs) =
     (if P x then Some 0 else (case first_index P xs of None \<Rightarrow> None | Some k \<Rightarrow> Some (Suc k)))"

definition sourceTimeToActiveWord :: "jsnum \<Rightarrow> jsnum \<Rightarrow> transcript_word list \<Rightarrow> int" where
  "sourceTimeToActiveWord sourceTime bias ws =
     (case first_index (span_contains (js_add sourceTime bias)) ws of
        None \<Rightarrow> -1
      | Some k \<Rightarrow> int k)"

definition example_words :: "transcript_word list" where
  "example_words =
     [\<lparr>w_word = ''Hello'', w_start = Fin 0, w_end = js_lit (12 / 10)\<rparr>,
      \<lparr>w_word = ''world'', w_start = js_lit (12 / 10), w_end = js_lit (24 / 10)\<rparr>,
      \<lparr>w_word = ''again'', w_start = js_lit (12 / 10), w_end = Fin 3\<rparr>]"

section \<open>Detail window (renderer.ts) and snippet extraction (main.ts, main.js)\<close>





text \<open>
  A value that arrives over IPC. \<open>Number(v)\<close> follows ECMAScript's ToNumber; what it
  gives on a string or an object is the language's own conversion and is taken as the
  parameter \<open>conv\<close>.
\<close>

datatype jsval = JUndefined | JNull | JBool bool | JNum jsnum | JStr string | JObj nat







section \<open>Main process: reading a pipeline spec file (main.ts)\<close>

text \<open>
  Node's \<open>path.basename\<close> and \<open>path.join\<close> on POSIX paths (the separator is
  \<open>/\<close>). \<open>basename\<close> drops the trailing separators and keeps what follows the last
  separator that remains. \<open>join\<close> glues its non-empty arguments with a separator and
  normalises the result: empty and \<open>.\<close> segments go, a \<open>..\<close> segment removes the
  segment before it.
\<close>

definition posix_basename :: "string \<Rightarrow> string" where
  "posix_basename p =
     rev (takeWhile (\<lambda>c. c \<noteq> CHR ''/'') (dropWhile (\<lambda>c. c = CHR ''/'') (rev p)))"

fun split_on :: "char \<Rightarrow> string \<Rightarrow> string list" where
  "split_on c [] = [] # []"
| "split_on c (x # xs) =
     (if x = c then [] # split_on c xs
      else (case split_on c xs of [] \<Rightarrow> [x] # [] | s # ss \<Rightarrow> (x # s) # ss))"

fun join_slash :: "string list \<Rightarrow> string" where
  "join_slash [] = []"
| "join_slash [s] = s"
| "join_slash (s # ss) = s @ ''/'' @ join_slash ss"

fun normalizeString :: "bool \<Rightarrow> string list \<Rightarrow> string list \<Rightarrow> string list" where
  "normalizeString allowAboveRoot [] res = rev res"
| "normalizeString allowAboveRoot (s # ss) res =
     (if s = [] \<or> s = ''.'' then normalizeString allowAboveRoot ss res
      else if s = ''..'' then
        (case res of
           t # ts \<Rightarrow>
             (if t \<noteq> ''..'' then normalizeString allowAboveRoot ss ts
              else if allowAboveRoot then normalizeString allowAboveRoot ss (s # res)
              else normalizeString allowAboveRoot ss res)
         | [] \<Rightarrow>
             (if allowAboveRoot then normalizeString allowAboveRoot ss (s # res)
              else normalizeString allowAboveRoot ss res))
      else normalizeString allowAboveRoot ss (s # res))"

definition posix_normalize :: "string \<Rightarrow> string" where
  "posix_normalize p =
     (if p = [] then ''.''
      else
        (let isAbsolute = (hd p = CHR ''/'');
             trailingSeparator = (last p = CHR ''/'');
             body = join_slash (normalizeString (\<not> isAbsolute) (split_on CHR ''/'' p) [])
         in if body = [] then
              (if isAbsolute then ''/'' else if trailingSeparator then ''./'' else ''.'')
            else (if isAbsolute then ''/'' else []) @ body
                 @ (if trailingSeparator then ''/'' else [])))"

definition path_join :: "string list \<Rightarrow> string" where
  "path_join args =
     (let parts = filter (\<lambda>a. a \<noteq> []) args
      in if parts = [] then ''.'' else posix_normalize (join_slash parts))"

text \<open>
  The file system as the handler sees it: what a path names, if anything. \<open>existsSync\<close>
  and \<open>readFileSync\<close> are the two calls the handler makes; reading a directory or a
  missing path throws.
\<close>

datatype fs_node = File string | Dir

type_synonym filesystem = "string \<Rightarrow> fs_node option"

datatype fs_op = ExistsSync string | ReadFileSync string

datatype spec_error =
    Invalid_spec_file_name
  | Spec_file_not_found string
  | EISDIR
  | ENOENT

definition existsSync :: "filesystem \<Rightarrow> string \<Rightarrow> bool" where
  "existsSync fs p = (fs p \<noteq> None)"

definition readFileSync :: "filesystem \<Rightarrow> string \<Rightarrow> spec_error + string" where
  "readFileSync fs p =
     (case fs p of None \<Rightarrow> Inl ENOENT | Some Dir \<Rightarrow> Inl EISDIR | Some (File c) \<Rightarrow> Inr c)"

definition sample_specs_dir :: "string \<Rightarrow> string" where
  "sample_specs_dir repoRoot = path_join [repoRoot, ''otter_py'', ''sample_specs'']"

text \<open>
  The \<open>read-spec-file\<close> handler: its outcome (\<open>Inl\<close> is the error thrown) and the file
  system calls it made, in order.
\<close>

definition read_spec_file :: "filesystem \<Rightarrow> string \<Rightarrow> string \<Rightarrow> (spec_error + string) \<times> fs_op list" where
  "read_spec_file fs repoRoot name =
     (let dir = sample_specs_dir repoRoot;
          safeName = posix_basename name
      in if safeName \<noteq> name then (Inl Invalid_spec_file_name, [])
         else
           (let fullPath = path_join [dir, safeName]
            in if \<not> existsSync fs fullPath
               then (Inl (Spec_file_not_found safeName), [ExistsSync fullPath])
               else (readFileSync fs fullPath, [ExistsSync fullPath, ReadFileSync fullPath])))"

text \<open>A small installation tree, for evaluating the handler.\<close>

definition example_fs :: filesystem where
  "example_fs p =
     (if p = ''/app/otter_py/sample_specs/default_spec.json'' then Some (File ''{}'')
      else if p = ''/app/otter_py/sample_specs'' then Some Dir
      else if p = ''/app/otter_py'' then Some Dir
      else if p = ''/etc/passwd'' then Some (File ''root'')
      else None)"

section \<open>Main process: EDL load and export (main.ts)\<close>

record edl_entry =
  entry_id :: string
  sourceStart :: jsnum
  sourceEnd :: jsnum
  label :: string
  muted :: bool

text \<open>
  The parsed EDL. The type in the source fixes \<open>version\<close> to \<open>1\<close>, which nothing checks
  at run time; \<open>entries\<close> may be missing (the handler reads \<open>edl.entries || []\<close>).
\<close>

record edl =
  version :: int
  sourceFile :: string
  entries :: "edl_entry list option"
  createdAt :: string
  modifiedAt :: string

text \<open>
  What a native dialog returns: \<open>showSaveDialog\<close> gives \<open>canceled\<close> and \<open>filePath\<close>
  (empty when there is none), \<open>showOpenDialog\<close> gives \<open>canceled\<close> and \<open>filePaths\<close>.
\<close>

record save_dialog_result =
  canceled :: bool
  filePath :: string

record open_dialog_result =
  open_canceled :: bool
  filePaths :: "string list"

text \<open>
  How a spawned child ends: the \<open>error\<close> event, or the \<open>close\<close> event with its exit
  code (\<open>None\<close> is \<open>null\<close>: the child was ended by a signal).
\<close>

datatype child_end = Child_error | Child_close "int option"

text \<open>
  The encoder is outside the program: \<open>ffmpeg\<close> takes its argument vector and the file
  system, and gives how it ended and the file system it left.
\<close>

type_synonym encoder = "string list \<Rightarrow> filesystem \<Rightarrow> child_end \<times> filesystem"

datatype effect =
    ShowSaveDialog
  | ShowOpenDialog
  | Spawn_ffmpeg "string list"
  | Fs_readFileSync string

datatype edl_error =
    JSON_SyntaxError
  | No_non_muted_segments
  | Ffmpeg_spawn_error
  | Ffmpeg_export_failed "int option"
  | Read_failed spec_error

text \<open>Decimal digits of an array index (\<open>${i}\<close> in a template literal).\<close>

fun show_nat :: "nat \<Rightarrow> string" where
  "show_nat n =
     (if n < 10 then [char_of (48 + n)]
      else show_nat (n div 10) @ [char_of (48 + n mod 10)])"

declare show_nat.simps [simp del]

text \<open>\<open>Array.prototype.join\<close> on strings.\<close>

fun js_join :: "string \<Rightarrow> string list \<Rightarrow> string" where
  "js_join sep [] = []"
| "js_join sep [s] = s"
| "js_join sep (s # ss) = s @ sep @ js_join sep ss"

definition atrim_part :: "(jsnum \<Rightarrow> string) \<Rightarrow> nat \<Rightarrow> edl_entry \<Rightarrow> string" where
  "atrim_part num_str i e =
     ''[0]atrim=start='' @ num_str (sourceStart e) @ '':end='' @ num_str (sourceEnd e)
     @ '',asetpts=PTS-STARTPTS[a'' @ show_nat i @ '']''"

definition concat_input :: "nat \<Rightarrow> string" where
  "concat_input i = ''[a'' @ show_nat i @ '']''"

text \<open>
  The \<open>for\<close> loop of the export handler from index \<open>i\<close> on, with the arrays
  \<open>filterParts\<close> and \<open>concatInputs\<close> it pushes to.
\<close>

fun export_loop ::
  "(jsnum \<Rightarrow> string) \<Rightarrow> edl_entry list \<Rightarrow> nat \<Rightarrow> string list \<times> string list \<Rightarrow> string list \<times> string list" where
  "export_loop num_str [] i (filterParts, concatInputs) = (filterParts, concatInputs)"
| "export_loop num_str (e # es) i (filterParts, concatInputs) =
     export_loop num_str es (i + 1)
       (filterParts @ [atrim_part num_str i e], concatInputs @ [concat_input i])"

definition filterComplex :: "(jsnum \<Rightarrow> string) \<Rightarrow> edl_entry list \<Rightarrow> string" where
  "filterComplex num_str es =
     (case export_loop num_str es 0 ([], []) of
        (filterParts, concatInputs) \<Rightarrow>
          js_join ''; '' filterParts @ ''; '' @ concat concatInputs
          @ ''concat=n='' @ show_nat (length es) @ '':v=0:a=1[out]'')"

definition export_args :: "string \<Rightarrow> string \<Rightarrow> string \<Rightarrow> string list" where
  "export_args src fc out =
     [''-hide_banner'', ''-y'', ''-i'', src, ''-filter_complex'', fc, ''-map'', ''[out]'',
      ''-c:a'', ''pcm_s16le'', out]"

text \<open>The entries that the export keeps: \<open>(edl.entries || []).filter((e) => !e.muted)\<close>.\<close>

definition non_muted :: "edl \<Rightarrow> edl_entry list" where
  "non_muted e = filter (\<lambda>x. \<not> muted x) (case entries e of None \<Rightarrow> [] | Some es \<Rightarrow> es)"

text \<open>
  The \<open>export-edl-audio\<close> handler. \<open>parsed\<close> is what \<open>JSON.parse(edlJson)\<close> gives
  (\<open>None\<close>: it threw), \<open>num_str\<close> the language's printing of a number, \<open>dialog\<close>
  what the save dialog returns, \<open>ffmpeg\<close> the encoder. The result is the handler's
  outcome (\<open>Inl\<close> an error thrown, \<open>Inr None\<close> the value \<open>null\<close>), what it did, in
  order, and the file system afterwards.
\<close>

definition export_edl_audio ::
  "(jsnum \<Rightarrow> string) \<Rightarrow> save_dialog_result \<Rightarrow> encoder \<Rightarrow> edl option \<Rightarrow> filesystem
     \<Rightarrow> (edl_error + string option) \<times> effect list \<times> filesystem" where
  "export_edl_audio num_str dialog ffmpeg parsed fs =
     (case parsed of
        None \<Rightarrow> (Inl JSON_SyntaxError, [], fs)
      | Some e \<Rightarrow>
          (let es = non_muted e
           in if length es = 0 then (Inl No_non_muted_segments, [], fs)
              else if canceled dialog \<or> filePath dialog = [] then (Inr None, [ShowSaveDialog], fs)
              else
                (let args = export_args (sourceFile e) (filterComplex num_str es) (filePath dialog)
                 in case ffmpeg args fs of
                      (Child_error, fs') \<Rightarrow>
                        (Inl Ffmpeg_spawn_error, [ShowSaveDialog, Spawn_ffmpeg args], fs')
                    | (Child_close code, fs') \<Rightarrow>
                        (if code = Some 0
                         then (Inr (Some (filePath dialog)), [ShowSaveDialog, Spawn_ffmpeg args], fs')
                         else (Inl (Ffmpeg_export_failed code),
                               [ShowSaveDialog, Spawn_ffmpeg args], fs')))))"

text \<open>
  The \<open>load-edl\<close> handler returns the chosen path and the raw content of the file; a
  failing read throws.
\<close>

definition load_edl ::
  "open_dialog_result \<Rightarrow> filesystem \<Rightarrow> (edl_error + (string \<times> string) option) \<times> effect list" where
  "load_edl dialog fs =
     (if open_canceled dialog \<or> length (filePaths dialog) = 0 then (Inr None, [ShowOpenDialog])
      else
        (let filePath = hd (filePaths dialog)
         in case readFileSync fs filePath of
              Inl err \<Rightarrow> (Inl (Read_failed err), [ShowOpenDialog, Fs_readFileSync filePath])
            | Inr content \<Rightarrow>
                (Inr (Some (filePath, content)), [ShowOpenDialog, Fs_readFileSync filePath])))"

text \<open>Concrete parameters, for evaluating the handlers.\<close>

definition example_num_str :: "jsnum \<Rightarrow> string" where
  "example_num_str x =
     (case x of
        NaN \<Rightarrow> ''NaN''
      | NInf \<Rightarrow> ''-Infinity''
      | PInf \<Rightarrow> ''Infinity''
      | Fin r \<Rightarrow> (if r < 0 then ''-'' else []) @ show_nat (nat \<lfloor>\<bar>r\<bar>\<rfloor>)
                 @ (if r = of_int \<lfloor>r\<rfloor> then []
                    else ''.'' @ show_nat (nat \<lfloor>(\<bar>r\<bar> - of_int \<lfloor>\<bar>r\<bar>\<rfloor>) * 10\<rfloor>)))"

definition writing_encoder :: encoder where
  "writing_encoder args fs = (Child_close (Some 0), fs(last args \<mapsto> File ''RIFF-WAVE''))"

definition killed_encoder :: encoder where
  "killed_encoder args fs = (Child_close None, fs(last args \<mapsto> File ''RIFF-partial''))"

definition example_entries :: "edl_entry list" where
  "example_entries =
     [\<lparr>entry_id = ''w1'', sourceStart = Fin 0, sourceEnd = Fin (12 / 10), label = ''Hello'', muted = False\<rparr>,
      \<lparr>entry_id = ''w2'', sourceStart = Fin (12 / 10), sourceEnd = Fin (31 / 10), label = ''world this'', muted = True\<rparr>,
      \<lparr>entry_id = ''w3'', sourceStart = Fin (31 / 10), sourceEnd = Fin 12, label = ''is OTTER demo'', muted = False\<rparr>]"

definition example_edl :: edl where
  "example_edl =
     \<lparr>version = 1, sourceFile = ''/audio/talk.wav'', entries = Some example_entries,
      createdAt = ''2026-01-01'', modifiedAt = ''2026-01-02''\<rparr>"

definition empty_edl :: edl where
  "empty_edl =
     \<lparr>version = 1, sourceFile = ''/audio/talk.wav'', entries = Some [],
      createdAt = ''2026-01-01'', modifiedAt = ''2026-01-02''\<rparr>"

definition example_dialog :: save_dialog_result where
  "example_dialog = \<lparr>canceled = False, filePath = ''/audio/export.wav''\<rparr>"

definition audio_fs :: filesystem where
  "audio_fs p = (if p = ''/audio/talk.wav'' then Some (File ''RIFF-source'') else None)"

text \<open>The \<open>-filter_complex\<close> arguments of the encoder runs among a handler's effects.\<close>

fun filter_args :: "effect list \<Rightarrow> string list" where
  "filter_args [] = []"
| "filter_args (Spawn_ffmpeg args # xs) = (args ! 5) # filter_args xs"
| "filter_args (x # xs) = filter_args xs"

definition relabelled_edl :: edl where
  "relabelled_edl =
     \<lparr>version = 1, sourceFile = ''/audio/copy.wav'',
      entries = Some
        [\<lparr>entry_id = ''a'', sourceStart = Fin 0, sourceEnd = Fin (12 / 10), label = ''one'', muted = False\<rparr>,
         \<lparr>entry_id = ''b'', sourceStart = Fin (31 / 10), sourceEnd = Fin 12, label = ''two'', muted = False\<rparr>],
      createdAt = ''2026-02-01'', modifiedAt = ''2026-02-02''\<rparr>"

definition other_dialog :: save_dialog_result where
  "other_dialog = \<lparr>canceled = False, filePath = ''/tmp/second.wav''\<rparr>"

definition overwrite_dialog :: save_dialog_result where
  "overwrite_dialog = \<lparr>canceled = False, filePath = ''/audio/talk.wav''\<rparr>"

definition v99_text :: string where
  \<open>v99_text = ''{"version": 99, "sourceFile": "/audio/talk.wav", "entries": []}''\<close>

definition project_fs :: filesystem where
  "project_fs p = (if p = ''/projects/v99.otter-edl.json'' then Some (File v99_text) else None)"

definition v99_dialog :: open_dialog_result where
  "v99_dialog = \<lparr>open_canceled = False, filePaths = [''/projects/v99.otter-edl.json'']\<rparr>"

section \<open>Main process: the transcription child and its cancellation (main.ts, the revision with cancellation)\<close>

datatype signal = SIGTERM | SIGKILL | SIGSTOP | SIGCONT | SIGTSTP | Other_signal string

text \<open>The global \<open>activeProcess\<close>: the handle of the running transcription child, or null.\<close>

record main_state =
  activeProcess :: "nat option"

datatype transcribe_error =
    Transcription_cancelled
  | Transcription_paused
  | Transcribe_exited "int option" string
  | Failed_to_parse_JSON string string

datatype 'v settle = Resolve 'v | Reject transcribe_error

text \<open>\<open>transcribe-audio\<close> stores the child it spawned.\<close>

definition transcribe_spawn :: "nat \<Rightarrow> main_state \<Rightarrow> main_state" where
  "transcribe_spawn child st = st\<lparr>activeProcess := Some child\<rparr>"

text \<open>
  The \<open>close\<close> handler of the transcription child, with the exit code (null after a
  signal), the signal (null after an exit), and what the child wrote to its output and
  error streams. It clears \<open>activeProcess\<close> and calls \<open>reject\<close> and \<open>resolve\<close>; the
  calls are listed in order. A \<open>break\<close> leaves the \<open>switch\<close> only, so the test of the
  exit code follows in every case.
\<close>

definition transcribe_on_close ::
  "(string \<Rightarrow> 'v option) \<Rightarrow> int option \<Rightarrow> signal option \<Rightarrow> string \<Rightarrow> string \<Rightarrow> main_state
     \<Rightarrow> main_state \<times> 'v settle list" where
  "transcribe_on_close JSON_parse code sig stdout stderr st =
     (st\<lparr>activeProcess := None\<rparr>,
      (case sig of
         Some SIGKILL \<Rightarrow> [Reject Transcription_cancelled]
       | Some SIGTSTP \<Rightarrow> [Reject Transcription_paused]
       | _ \<Rightarrow> [])
      @ (if code \<noteq> Some 0 then [Reject (Transcribe_exited code stderr)]
         else (case JSON_parse stdout of
                 Some parsed \<Rightarrow> [Resolve parsed]
               | None \<Rightarrow> [Reject (Failed_to_parse_JSON stdout stderr)])))"

text \<open>A promise is settled by the first call of \<open>resolve\<close> or \<open>reject\<close>; later calls do nothing.\<close>

definition promise_result :: "'v settle list \<Rightarrow> 'v settle option" where
  "promise_result calls = (case calls of [] \<Rightarrow> None | c # cs \<Rightarrow> Some c)"

text \<open>
  \<open>cancel-transcription\<close>, \<open>pause-transcription\<close> and \<open>resume-transcription\<close>: the value
  returned and the signals sent. \<open>kill\<close> is the operating system's answer to
  \<open>activeProcess.kill(signal)\<close>.
\<close>

definition cancel_transcription :: "(nat \<Rightarrow> signal \<Rightarrow> bool) \<Rightarrow> main_state \<Rightarrow> bool \<times> (nat \<times> signal) list" where
  "cancel_transcription kill st =
     (case activeProcess st of
        Some child \<Rightarrow> (kill child SIGTERM, [(child, SIGTERM)])
      | None \<Rightarrow> (False, []))"

definition pause_transcription :: "(nat \<Rightarrow> signal \<Rightarrow> bool) \<Rightarrow> main_state \<Rightarrow> bool \<times> (nat \<times> signal) list" where
  "pause_transcription kill st =
     (case activeProcess st of
        Some child \<Rightarrow> (kill child SIGSTOP, [(child, SIGSTOP)])
      | None \<Rightarrow> (False, []))"

definition resume_transcription :: "(nat \<Rightarrow> signal \<Rightarrow> bool) \<Rightarrow> main_state \<Rightarrow> bool \<times> (nat \<times> signal) list" where
  "resume_transcription kill st =
     (case activeProcess st of
        Some child \<Rightarrow> (kill child SIGCONT, [(child, SIGCONT)])
      | None \<Rightarrow> (False, []))"

definition always_delivered :: "nat \<Rightarrow> signal \<Rightarrow> bool" where
  "always_delivered child s = True"

definition no_json :: "string \<Rightarrow> string option" where
  "no_json s = None"

section \<open>Transcript document and command engine\<close>

text \<open>
  Modelled from the spec: the transcript document, its primitive operations, the commands
  and the undo manager are described by the specification (sections 3, 4.1 to 4.3) and by
  the design notes of the repository, and are not implemented by any source file. Sample
  indices are natural numbers; word identifiers are strings.
\<close>

datatype doc_error =
    InvalidSpan
  | IndexOutOfRange
  | DuplicateWordId
  | CoverageViolation
  | UnknownWord
  | NothingToUndo
  | NothingToRedo

text \<open>Modelled from the spec: \<open>SampleSpan\<close>, a range of samples of the source.\<close>

record sample_span =
  startSample :: nat
  endSample :: nat

text \<open>Modelled from the spec: a \<open>Word\<close> record.\<close>

record word_rec =
  word_id :: string
  word_text :: string
  span :: sample_span
  confidence :: "rat option"
  speakerId :: "string option"

text \<open>Modelled from the spec: \<open>TranscriptDocument\<close>, the id-keyed words and the edited order.\<close>

record transcript_doc =
  wordsById :: "string \<rightharpoonup> word_rec"
  order :: "string list"

text \<open>
  Modelled from the spec: the configuration, that is the policy flag (strict or
  permissive), the length of the media, and the coverage test of the strict policy, whose
  meaning the specification leaves open.
\<close>

record config =
  strict :: bool
  totalSamples :: nat
  coverage :: "transcript_doc \<Rightarrow> bool"

text \<open>
  Modelled from the spec: \<open>SpanModel.validate\<close> fails with \<open>InvalidSpan\<close> if
  \<open>start \<ge> end\<close> or the span is out of \<open>[0, totalSamples)\<close>.
\<close>

definition validate :: "sample_span \<Rightarrow> nat \<Rightarrow> bool" where
  "validate s len = (startSample s < endSample s \<and> endSample s \<le> len)"

text \<open>
  Modelled from the spec: the two list splices that the operations on \<open>order\<close> are
  made of, removing \<open>count\<close> ids at an index and inserting ids at an index.
\<close>

definition remove_block :: "nat \<Rightarrow> nat \<Rightarrow> 'a list \<Rightarrow> 'a list" where
  "remove_block index count xs = take index xs @ drop (index + count) xs"

definition insert_block :: "nat \<Rightarrow> 'a list \<Rightarrow> 'a list \<Rightarrow> 'a list" where
  "insert_block index ys xs = take index xs @ ys @ drop index xs"

text \<open>
  Modelled from the spec: \<open>deleteRange(startIndex, count)\<close> removes \<open>count\<close> ids from
  \<open>order\<close> at \<open>startIndex\<close>, fails with \<open>IndexOutOfRange\<close> if the range exceeds the
  order, and returns the removed ids. The word records stay in \<open>wordsById\<close>, as
  tombstones.
\<close>

definition deleteRange :: "nat \<Rightarrow> nat \<Rightarrow> transcript_doc \<Rightarrow> doc_error + string list \<times> transcript_doc" where
  "deleteRange startIndex count d =
     (if startIndex + count > length (order d) then Inl IndexOutOfRange
      else Inr (take count (drop startIndex (order d)),
                d\<lparr>order := remove_block startIndex count (order d)\<rparr>))"

text \<open>
  Modelled from the spec: adding the new word records to the id-keyed map, one by one. A
  record is added when the map has no record of that id; a record that the map has is
  left as it is.
\<close>

fun add_words :: "word_rec list \<Rightarrow> (string \<rightharpoonup> word_rec) \<Rightarrow> (string \<rightharpoonup> word_rec)" where
  "add_words [] m = m"
| "add_words (w # ws) m =
     add_words ws (case m (word_id w) of None \<Rightarrow> m(word_id w \<mapsto> w) | Some r \<Rightarrow> m)"

text \<open>
  Modelled from the spec: \<open>insertRange(index, ids, newWordsById)\<close> adds the new word
  records first and inserts the ids at \<open>index\<close>. It fails with \<open>DuplicateWordId\<close> if an
  id is already in \<open>order\<close> (or occurs twice), and rejects in full whatever would break an
  invariant of the document: an index beyond the order, a new record whose span is not
  within the media, an id without a record.
\<close>

definition insertRange ::
  "config \<Rightarrow> nat \<Rightarrow> string list \<Rightarrow> word_rec list \<Rightarrow> transcript_doc \<Rightarrow> doc_error + transcript_doc" where
  "insertRange cfg index ids newWords d =
     (if index > length (order d) then Inl IndexOutOfRange
      else if \<not> distinct ids \<or> list_ex (\<lambda>i. i \<in> set (order d)) ids then Inl DuplicateWordId
      else if list_ex (\<lambda>w. wordsById d (word_id w) = None
                            \<and> \<not> validate (span w) (totalSamples cfg)) newWords
      then Inl InvalidSpan
      else if list_ex (\<lambda>i. add_words newWords (wordsById d) i = None) ids then Inl UnknownWord
      else Inr (d\<lparr>wordsById := add_words newWords (wordsById d),
                 order := insert_block index ids (order d)\<rparr>))"

text \<open>
  Modelled from the spec: \<open>moveRange(fromIndex, count, toIndex)\<close> removes a block and
  inserts it again; \<open>toIndex\<close> is an index of the order after the removal.
\<close>

definition moveRange :: "nat \<Rightarrow> nat \<Rightarrow> nat \<Rightarrow> transcript_doc \<Rightarrow> doc_error + transcript_doc" where
  "moveRange fromIndex count toIndex d =
     (if fromIndex + count > length (order d) \<or> toIndex > length (order d) - count
      then Inl IndexOutOfRange
      else
        (let moved = take count (drop fromIndex (order d));
             rest = remove_block fromIndex count (order d)
         in Inr (d\<lparr>order := insert_block toIndex moved rest\<rparr>)))"

text \<open>
  Modelled from the spec: writing a list of spans, each validated, each for a word that
  the map has.
\<close>

fun set_spans ::
  "nat \<Rightarrow> (string \<times> sample_span) list \<Rightarrow> (string \<rightharpoonup> word_rec) \<Rightarrow> doc_error + (string \<rightharpoonup> word_rec)" where
  "set_spans len [] m = Inr m"
| "set_spans len ((w, s) # rest) m =
     (if \<not> validate s len then Inl InvalidSpan
      else (case m w of
              None \<Rightarrow> Inl UnknownWord
            | Some r \<Rightarrow> set_spans len rest (m(w \<mapsto> r\<lparr>span := s\<rparr>))))"

text \<open>
  Modelled from the spec: \<open>updateSpan(wordId, newSpan, neighborUpdates)\<close> validates the
  spans and, under the strict policy, fails with \<open>CoverageViolation\<close> unless the result
  passes the coverage test.
\<close>

definition updateSpan ::
  "config \<Rightarrow> string \<Rightarrow> sample_span \<Rightarrow> (string \<times> sample_span) list \<Rightarrow> transcript_doc
     \<Rightarrow> doc_error + transcript_doc" where
  "updateSpan cfg wordId newSpan neighborUpdates d =
     (case set_spans (totalSamples cfg) ((wordId, newSpan) # neighborUpdates) (wordsById d) of
        Inl e \<Rightarrow> Inl e
      | Inr m \<Rightarrow>
          (if strict cfg \<and> \<not> coverage cfg (d\<lparr>wordsById := m\<rparr>) then Inl CoverageViolation
           else Inr (d\<lparr>wordsById := m\<rparr>)))"

text \<open>Modelled from the spec: \<open>updateText(wordId, newText)\<close> replaces the text only.\<close>

definition updateText :: "string \<Rightarrow> string \<Rightarrow> transcript_doc \<Rightarrow> doc_error + transcript_doc" where
  "updateText wordId newText d =
     (case wordsById d wordId of
        None \<Rightarrow> Inl UnknownWord
      | Some r \<Rightarrow> Inr (d\<lparr>wordsById := (wordsById d)(wordId \<mapsto> r\<lparr>word_text := newText\<rparr>)\<rparr>))"

text \<open>
  Modelled from the spec: the commands, each with the data that reverses it.
  \<open>DeleteWords\<close> has the start index and the removed ids; \<open>InsertWords\<close> the index, the
  ids and the new word records; \<open>MoveRange\<close> the indices, the count and the moved ids;
  \<open>UpdateWordSpan\<close> the word, its span before and after, and the same for each neighbour;
  \<open>UpdateWordText\<close> the word and its text before and after; \<open>Composite\<close> the
  sub-commands of a transaction.
\<close>

datatype command =
    DeleteWords nat "string list"
  | InsertWords nat "string list" "word_rec list"
  | MoveRange nat nat nat "string list"
  | UpdateWordSpan string sample_span sample_span "(string \<times> sample_span \<times> sample_span) list"
  | UpdateWordText string string string
  | Composite "command list"

text \<open>Modelled from the spec: writing captured spans back, as they are.\<close>

fun restore_spans :: "(string \<times> sample_span) list \<Rightarrow> (string \<rightharpoonup> word_rec) \<Rightarrow> (string \<rightharpoonup> word_rec)" where
  "restore_spans [] m = m"
| "restore_spans ((w, s) # rest) m =
     (case restore_spans rest m of m' \<Rightarrow>
        (case m' w of None \<Rightarrow> m' | Some r \<Rightarrow> m'(w \<mapsto> r\<lparr>span := s\<rparr>)))"

text \<open>
  Modelled from the spec: the reverse mutation of a command restores the captured values
  and computes nothing anew. Reversing an insertion takes the inserted ids out of
  \<open>order\<close>; the word records that the insertion added stay in \<open>wordsById\<close>, as
  tombstones, since a word that \<open>order\<close> does not reference is not deleted within the edit
  history. A composite reverses its sub-commands in reverse order.
\<close>

fun unapply_cmd :: "command \<Rightarrow> transcript_doc \<Rightarrow> transcript_doc"
  and unapply_all :: "command list \<Rightarrow> transcript_doc \<Rightarrow> transcript_doc" where
  "unapply_cmd (DeleteWords startIndex removed) d =
     d\<lparr>order := insert_block startIndex removed (order d)\<rparr>"
| "unapply_cmd (InsertWords index ids newWords) d =
     d\<lparr>order := remove_block index (length ids) (order d)\<rparr>"
| "unapply_cmd (MoveRange fromIndex count toIndex moved) d =
     (let rest = remove_block toIndex count (order d)
      in d\<lparr>order := insert_block fromIndex moved rest\<rparr>)"
| "unapply_cmd (UpdateWordSpan w beforeSpan afterSpan neighbours) d =
     d\<lparr>wordsById := restore_spans ((w, beforeSpan) # map (\<lambda>(u, b, a). (u, b)) neighbours)
                        (wordsById d)\<rparr>"
| "unapply_cmd (UpdateWordText w beforeText afterText) d =
     (case wordsById d w of
        None \<Rightarrow> d
      | Some r \<Rightarrow> d\<lparr>wordsById := (wordsById d)(w \<mapsto> r\<lparr>word_text := beforeText\<rparr>)\<rparr>)"
| "unapply_cmd (Composite cs) d = unapply_all cs d"
| "unapply_all [] d = d"
| "unapply_all (c # cs) d = unapply_cmd c (unapply_all cs d)"

text \<open>
  Modelled from the spec: the prior values that a command captures for its reversal, the
  span and the text that a word has in the document.
\<close>

definition span_before :: "transcript_doc \<Rightarrow> string \<Rightarrow> sample_span \<Rightarrow> sample_span" where
  "span_before d w s = (case wordsById d w of None \<Rightarrow> s | Some r \<Rightarrow> span r)"

definition text_before :: "transcript_doc \<Rightarrow> string \<Rightarrow> string \<Rightarrow> string" where
  "text_before d w t = (case wordsById d w of None \<Rightarrow> t | Some r \<Rightarrow> word_text r)"

text \<open>
  Modelled from the spec: the forward mutation of a command. It gives the document after
  the mutation and the command with the data of its reversal, built from what the
  operation returns and from the prior values of the document: the ids that
  \<open>deleteRange\<close> removed, the ids that were moved, the spans and the text before the
  update. So whatever such data the command came with is not relied on. A composite
  applies its sub-commands in order; when one of them fails, the composite fails as a
  whole and the sub-commands applied before it are reversed, the last one first. A failure
  gives the error and the document it leaves.
\<close>

fun apply_cmd ::
    "config \<Rightarrow> command \<Rightarrow> transcript_doc
       \<Rightarrow> doc_error \<times> transcript_doc + command \<times> transcript_doc"
  and apply_all ::
    "config \<Rightarrow> command list \<Rightarrow> transcript_doc
       \<Rightarrow> doc_error \<times> transcript_doc + command list \<times> transcript_doc" where
  "apply_cmd cfg (DeleteWords startIndex removed) d =
     (case deleteRange startIndex (length removed) d of
        Inl e \<Rightarrow> Inl (e, d)
      | Inr (ids, d') \<Rightarrow> Inr (DeleteWords startIndex ids, d'))"
| "apply_cmd cfg (InsertWords index ids newWords) d =
     (case insertRange cfg index ids newWords d of
        Inl e \<Rightarrow> Inl (e, d)
      | Inr d' \<Rightarrow> Inr (InsertWords index ids newWords, d'))"
| "apply_cmd cfg (MoveRange fromIndex count toIndex moved) d =
     (case moveRange fromIndex count toIndex d of
        Inl e \<Rightarrow> Inl (e, d)
      | Inr d' \<Rightarrow> Inr (MoveRange fromIndex count toIndex (take count (drop fromIndex (order d))), d'))"
| "apply_cmd cfg (UpdateWordSpan w beforeSpan afterSpan neighbours) d =
     (case updateSpan cfg w afterSpan (map (\<lambda>(u, b, a). (u, a)) neighbours) d of
        Inl e \<Rightarrow> Inl (e, d)
      | Inr d' \<Rightarrow>
          Inr (UpdateWordSpan w (span_before d w beforeSpan) afterSpan
                 (map (\<lambda>(u, b, a). (u, span_before d u b, a)) neighbours), d'))"
| "apply_cmd cfg (UpdateWordText w beforeText afterText) d =
     (case updateText w afterText d of
        Inl e \<Rightarrow> Inl (e, d)
      | Inr d' \<Rightarrow> Inr (UpdateWordText w (text_before d w beforeText) afterText, d'))"
| "apply_cmd cfg (Composite cs) d =
     (case apply_all cfg cs d of
        Inl (e, d') \<Rightarrow> Inl (e, d')
      | Inr (cs', d') \<Rightarrow> Inr (Composite cs', d'))"
| "apply_all cfg [] d = Inr ([], d)"
| "apply_all cfg (c # cs) d =
     (case apply_cmd cfg c d of
        Inl (e, d') \<Rightarrow> Inl (e, d')
      | Inr (c', d1) \<Rightarrow>
          (case apply_all cfg cs d1 of
             Inl (e, d2) \<Rightarrow> Inl (e, unapply_cmd c' d2)
           | Inr (cs', d2) \<Rightarrow> Inr (c' # cs', d2)))"


text \<open>Modelled from the spec: the undo manager, with the document it edits.\<close>

record engine =
  doc :: transcript_doc
  undoStack :: "command list"
  redoStack :: "command list"



text \<open>Modelled from the spec: \<open>redo()\<close>, symmetric, fails with \<open>NothingToRedo\<close>.\<close>

definition engine_redo :: "config \<Rightarrow> engine \<Rightarrow> doc_error \<times> engine + engine" where
  "engine_redo cfg en =
     (case redoStack en of
        [] \<Rightarrow> Inl (NothingToRedo, en)
      | c # cs \<Rightarrow>
          (case apply_cmd cfg c (doc en) of
             Inl (e, d') \<Rightarrow> Inl (e, en\<lparr>doc := d'\<rparr>)
           | Inr (c', d') \<Rightarrow> Inr (en\<lparr>doc := d', undoStack := c' # undoStack en, redoStack := cs\<rparr>)))"


















text \<open>
  An EDL whose source is spelled with a \<open>.\<close> segment, and an encoder that, as the
  operating system does, resolves its output path before it writes the file.
\<close>

definition alias_edl :: edl where
  "alias_edl =
     \<lparr>version = 1, sourceFile = ''/audio/./talk.wav'', entries = Some example_entries,
      createdAt = ''2026-01-01'', modifiedAt = ''2026-01-02''\<rparr>"

definition resolving_encoder :: encoder where
  "resolving_encoder args fs =
     (Child_close (Some 0), fs(posix_normalize (last args) \<mapsto> File ''RIFF-WAVE''))"

section \<open>Properties\<close>

lemma scan_words_none:
  "scan_words te ws i = -1 \<Longrightarrow> 0 \<le> i \<Longrightarrow> list_all (\<lambda>w. \<not> span_contains te w) ws"
  by (induction ws arbitrary: i) (auto simp: span_contains_def js_ge_def split: if_splits)

lemma scan_words_found:
  "scan_words te ws i \<noteq> -1 \<Longrightarrow> 0 \<le> i \<Longrightarrow>
     i \<le> scan_words te ws i \<and> nat (scan_words te ws i - i) < length ws
     \<and> span_contains te (ws ! nat (scan_words te ws i - i))
     \<and> list_all (\<lambda>w. \<not> span_contains te w) (take (nat (scan_words te ws i - i)) ws)"
proof (induction ws arbitrary: i)
  case Nil
  then show ?case by simp
next
  case (Cons w ws)
  show ?case
  proof (cases "js_ge te (w_start w) \<and> js_lt te (w_end w)")
    case True
    then show ?thesis by (simp add: span_contains_def js_ge_def)
  next
    case False
    then have eq: "scan_words te (w # ws) i = scan_words te ws (i + 1)" by auto
    with Cons.prems have ne: "scan_words te ws (i + 1) \<noteq> -1" by simp
    from Cons.prems have "0 \<le> i + 1" by simp
    from Cons.IH [OF ne this]
    have ih: "i + 1 \<le> scan_words te ws (i + 1)"
      "nat (scan_words te ws (i + 1) - (i + 1)) < length ws"
      "span_contains te (ws ! nat (scan_words te ws (i + 1) - (i + 1)))"
      "list_all (\<lambda>w. \<not> span_contains te w) (take (nat (scan_words te ws (i + 1) - (i + 1))) ws)"
      by simp_all
    have n: "nat (scan_words te ws (i + 1) - i) = Suc (nat (scan_words te ws (i + 1) - (i + 1)))"
      using ih(1) by simp
    have nc: "\<not> span_contains te w"
      using False by (simp add: span_contains_def js_ge_def)
    show ?thesis
      unfolding eq n using ih nc by simp
  qed
qed

lemma scan_words_first_index:
  "scan_words te ws i =
     (case first_index (span_contains te) ws of None \<Rightarrow> -1 | Some k \<Rightarrow> i + int k)"
proof (induction ws arbitrary: i)
  case Nil
  then show ?case by simp
next
  case (Cons w ws)
  show ?case
  proof (cases "span_contains te w")
    case True
    then show ?thesis
      by (simp add: span_contains_def js_ge_def)
  next
    case False
    then have "scan_words te (w # ws) i = scan_words te ws (i + 1)"
      by (auto simp: span_contains_def js_ge_def)
    then show ?thesis
      using False Cons.IH [of "i + 1"] by (simp split: option.splits)
  qed
qed

text \<open>
  C7, as stated, fails: the bias is not configured. The handler adds the literal
  \<open>0.01\<close>, so with a configured bias of \<open>0.05\<close> and the playback time \<open>1.16\<close> the
  lookup of the specification gives the second word, whose span contains \<open>1.21\<close>, and
  the handler gives the first, whose span contains \<open>1.17\<close>.
\<close>

theorem timeupdate_bias_not_configured_counterexample:
  "sourceTimeToActiveWord (js_lit (116 / 100)) (js_lit (5 / 100)) example_words = 1
   \<and> timeupdate_idx (js_lit (116 / 100)) example_words = 0"
  by code_simp

text \<open>
  C7, amended. For every playback time \<open>t\<close> and word list, the \<open>timeupdate\<close> lookup
  returns the index of the first word, in list order, whose span contains the time
  advanced by a forward bias of \<open>0.01\<close> seconds, that is \<open>start \<le> te < end\<close> for the
  double \<open>te = t + 0.01\<close> as the addition rounds it, and \<open>-1\<close> when no span contains
  it. The bias is this one constant in every lookup, written as a literal in the handler:
  it is the lookup of the specification at the bias \<open>0.01\<close>, and no configuration changes
  it.
\<close>

theorem timeupdate_first_containing_word:
  "timeupdate_idx t ws = sourceTimeToActiveWord t (js_lit (1 / 100)) ws
   \<and> ((timeupdate_idx t ws = -1
        \<and> list_all (\<lambda>w. \<not> span_contains (js_add t (js_lit (1 / 100))) w) ws)
      \<or> (0 \<le> timeupdate_idx t ws \<and> nat (timeupdate_idx t ws) < length ws
        \<and> span_contains (js_add t (js_lit (1 / 100))) (ws ! nat (timeupdate_idx t ws))
        \<and> list_all (\<lambda>w. \<not> span_contains (js_add t (js_lit (1 / 100))) w)
             (take (nat (timeupdate_idx t ws)) ws)))"
proof -
  have eq: "timeupdate_idx t ws = sourceTimeToActiveWord t (js_lit (1 / 100)) ws"
    by (simp add: timeupdate_idx_def sourceTimeToActiveWord_def scan_words_first_index
        split: option.splits)
  show ?thesis
  proof (cases "timeupdate_idx t ws = -1")
    case True
    then show ?thesis
      using eq scan_words_none [of "js_add t (js_lit (1 / 100))" ws 0]
      by (simp add: timeupdate_idx_def)
  next
    case False
    then show ?thesis
      using eq scan_words_found [of "js_add t (js_lit (1 / 100))" ws 0]
      by (simp add: timeupdate_idx_def)
  qed
qed

theorem timeupdate_first_containing_word_witness:
  "timeupdate_idx (js_lit (9 / 100))
      [\<lparr>w_word = ''a'', w_start = Fin 0, w_end = js_lit (1 / 10)\<rparr>,
       \<lparr>w_word = ''b'', w_start = js_lit (1 / 10), w_end = js_lit (2 / 10)\<rparr>] = 0
   \<and> js_lt (js_add (js_lit (9 / 100)) (js_lit (1 / 100))) (js_lit (1 / 10))
   \<and> timeupdate_idx (Fin 0)
      [\<lparr>w_word = ''a'', w_start = Fin 0, w_end = js_lit (1 / 100)\<rparr>,
       \<lparr>w_word = ''b'', w_start = js_lit (1 / 100), w_end = js_lit (2 / 10)\<rparr>] = 1
   \<and> timeupdate_idx (js_lit (1195 / 1000)) example_words = 1
   \<and> sourceTimeToActiveWord (js_lit (1195 / 1000)) (js_lit (1 / 100)) example_words = 1
   \<and> span_contains (js_add (js_lit (1195 / 1000)) (js_lit (1 / 100))) (example_words ! 1)"
proof -
  have a: "timeupdate_idx (js_lit (9 / 100))
      [\<lparr>w_word = ''a'', w_start = Fin 0, w_end = js_lit (1 / 10)\<rparr>,
       \<lparr>w_word = ''b'', w_start = js_lit (1 / 10), w_end = js_lit (2 / 10)\<rparr>] = 0"
    by code_simp
  have b: "js_lt (js_add (js_lit (9 / 100)) (js_lit (1 / 100))) (js_lit (1 / 10))"
    by code_simp
  have c: "timeupdate_idx (Fin 0)
      [\<lparr>w_word = ''a'', w_start = Fin 0, w_end = js_lit (1 / 100)\<rparr>,
       \<lparr>w_word = ''b'', w_start = js_lit (1 / 100), w_end = js_lit (2 / 10)\<rparr>] = 1"
    by code_simp
  have d: "timeupdate_idx (js_lit (1195 / 1000)) example_words = 1"
    by code_simp
  have e: "span_contains (js_add (js_lit (1195 / 1000)) (js_lit (1 / 100))) (example_words ! 1)"
    by code_simp
  from a b c d e timeupdate_first_containing_word [of "js_lit (1195 / 1000)" example_words]
  show ?thesis by simp
qed

text \<open>
  C10. After every call of \<open>setSelectionRange\<close>, with integer or null arguments, either
  \<open>selectionStart\<close>, \<open>selectionEnd\<close> and \<open>selectionAnchor\<close> are all null, or
  \<open>selectionStart \<le> selectionEnd\<close> and a word element carries the class
  \<open>selected\<close> exactly when its index lies in \<open>[selectionStart, selectionEnd]\<close>.
  With two integer arguments the second alternative holds.
\<close>

theorem setSelectionRange_invariant:
  "(selectionStart (setSelectionRange a b st) = None
      \<and> selectionEnd (setSelectionRange a b st) = None
      \<and> selectionAnchor (setSelectionRange a b st) = None
      \<and> (a = None \<or> b = None))
   \<or> (\<exists>lo hi. selectionStart (setSelectionRange a b st) = Some lo
        \<and> selectionEnd (setSelectionRange a b st) = Some hi
        \<and> lo \<le> hi
        \<and> (\<forall>el \<in> set (nodes (setSelectionRange a b st)).
               selected el = (lo \<le> data_index el \<and> data_index el \<le> hi)))"
proof (cases a)
  case None
  then show ?thesis by (simp add: setSelectionRange_def)
next
  case (Some x)
  note a = this
  show ?thesis
  proof (cases b)
    case None
    with a show ?thesis by (simp add: setSelectionRange_def)
  next
    case (Some y)
    with a show ?thesis
      by (auto simp: setSelectionRange_def normalizeRange_def toggle_selected_def Let_def)
  qed
qed

theorem setSelectionRange_invariant_witness:
  "selectionStart (setSelectionRange (Some 2) (Some 1)
      \<lparr>selectionStart = None, selectionEnd = None, selectionAnchor = Some 2, playheadIndex = -1,
       nodes = [\<lparr>data_index = 0, selected = True, playhead = False\<rparr>,
                \<lparr>data_index = 1, selected = False, playhead = False\<rparr>,
                \<lparr>data_index = 2, selected = False, playhead = False\<rparr>,
                \<lparr>data_index = 3, selected = True, playhead = False\<rparr>]\<rparr>) = Some 1
   \<and> selectionEnd (setSelectionRange (Some 2) (Some 1)
      \<lparr>selectionStart = None, selectionEnd = None, selectionAnchor = Some 2, playheadIndex = -1,
       nodes = [\<lparr>data_index = 0, selected = True, playhead = False\<rparr>,
                \<lparr>data_index = 1, selected = False, playhead = False\<rparr>,
                \<lparr>data_index = 2, selected = False, playhead = False\<rparr>,
                \<lparr>data_index = 3, selected = True, playhead = False\<rparr>]\<rparr>) = Some 2
   \<and> map selected (nodes (setSelectionRange (Some 2) (Some 1)
      \<lparr>selectionStart = None, selectionEnd = None, selectionAnchor = Some 2, playheadIndex = -1,
       nodes = [\<lparr>data_index = 0, selected = True, playhead = False\<rparr>,
                \<lparr>data_index = 1, selected = False, playhead = False\<rparr>,
                \<lparr>data_index = 2, selected = False, playhead = False\<rparr>,
                \<lparr>data_index = 3, selected = True, playhead = False\<rparr>]\<rparr>))
       = [False, True, True, False]"
  using setSelectionRange_invariant [of "Some 2" "Some 1"
      "\<lparr>selectionStart = None, selectionEnd = None, selectionAnchor = Some 2, playheadIndex = -1,
       nodes = [\<lparr>data_index = 0, selected = True, playhead = False\<rparr>,
                \<lparr>data_index = 1, selected = False, playhead = False\<rparr>,
                \<lparr>data_index = 2, selected = False, playhead = False\<rparr>,
                \<lparr>data_index = 3, selected = True, playhead = False\<rparr>]\<rparr>"]
  by (simp add: setSelectionRange_def normalizeRange_def toggle_selected_def Let_def)














lemma basename_no_slash: "CHR ''/'' \<notin> set (posix_basename p)"
  unfolding posix_basename_def using set_takeWhileD by fastforce

lemma basename_fix: "posix_basename p = p \<longleftrightarrow> CHR ''/'' \<notin> set p"
proof
  assume "posix_basename p = p"
  then show "CHR ''/'' \<notin> set p"
    using basename_no_slash [of p] by simp
next
  assume a: "CHR ''/'' \<notin> set p"
  then have "dropWhile (\<lambda>c. c = CHR ''/'') (rev p) = rev p"
    by (cases "rev p") auto
  moreover have "takeWhile (\<lambda>c. c \<noteq> CHR ''/'') (rev p) = rev p"
    using a by auto
  ultimately show "posix_basename p = p"
    unfolding posix_basename_def by (simp only: rev_rev_ident)
qed

lemma read_spec_file_rejects:
  "posix_basename name \<noteq> name \<Longrightarrow>
     read_spec_file fs repoRoot name = (Inl Invalid_spec_file_name, [])"
  by (simp add: read_spec_file_def Let_def)

lemma read_spec_file_returns:
  assumes "fst (read_spec_file fs repoRoot name) = Inr c"
  shows "posix_basename name = name
     \<and> fs (path_join [sample_specs_dir repoRoot, name]) = Some (File c)
     \<and> snd (read_spec_file fs repoRoot name)
         = [ExistsSync (path_join [sample_specs_dir repoRoot, name]),
            ReadFileSync (path_join [sample_specs_dir repoRoot, name])]"
proof -
  have b: "posix_basename name = name"
    using assms by (auto simp: read_spec_file_def Let_def split: if_splits)
  have r: "readFileSync fs (path_join [sample_specs_dir repoRoot, name]) = Inr c"
    using assms b by (auto simp: read_spec_file_def Let_def split: if_splits)
  then have f: "fs (path_join [sample_specs_dir repoRoot, name]) = Some (File c)"
    by (auto simp: readFileSync_def split: option.splits fs_node.splits)
  then have "existsSync fs (path_join [sample_specs_dir repoRoot, name])"
    by (simp add: existsSync_def)
  then show ?thesis
    using b f by (simp add: read_spec_file_def Let_def)
qed

text \<open>
  C9. For every requested spec-file name, if the name is not its own basename, which is
  the case whenever it contains a path separator (as \<open>../x\<close> does), \<open>read-spec-file\<close>
  throws without any file system call. Consequently, when the handler returns a content,
  the name is a single path component without separator and the content is that of the
  file \<open>sample_specs/name\<close>; where the \<open>sample_specs\<close> directory and its parent are
  directories, the name is neither empty nor \<open>.\<close> nor \<open>..\<close>, so the file lies
  directly inside \<open>sample_specs\<close>.
\<close>

theorem read_spec_file_confined:
  "(posix_basename name \<noteq> name \<longrightarrow>
       read_spec_file fs repoRoot name = (Inl Invalid_spec_file_name, []))
   \<and> (CHR ''/'' \<in> set name \<longrightarrow> posix_basename name \<noteq> name)
   \<and> (fst (read_spec_file fs repoRoot name) = Inr c \<longrightarrow>
         CHR ''/'' \<notin> set name
         \<and> fs (path_join [sample_specs_dir repoRoot, name]) = Some (File c)
         \<and> snd (read_spec_file fs repoRoot name)
             = [ExistsSync (path_join [sample_specs_dir repoRoot, name]),
                ReadFileSync (path_join [sample_specs_dir repoRoot, name])])
   \<and> (fst (read_spec_file fs repoRoot name) = Inr c
        \<and> fs (path_join [sample_specs_dir repoRoot, []]) = Some Dir
        \<and> fs (path_join [sample_specs_dir repoRoot, ''.'']) = Some Dir
        \<and> fs (path_join [sample_specs_dir repoRoot, ''..'']) = Some Dir \<longrightarrow>
         name \<noteq> [] \<and> name \<noteq> ''.'' \<and> name \<noteq> ''..'')"
proof -
  have 1: "posix_basename name \<noteq> name \<longrightarrow>
       read_spec_file fs repoRoot name = (Inl Invalid_spec_file_name, [])"
    using read_spec_file_rejects by blast
  have 2: "CHR ''/'' \<in> set name \<longrightarrow> posix_basename name \<noteq> name"
    using basename_fix [of name] by blast
  have 3: "fst (read_spec_file fs repoRoot name) = Inr c \<longrightarrow>
         CHR ''/'' \<notin> set name
         \<and> fs (path_join [sample_specs_dir repoRoot, name]) = Some (File c)
         \<and> snd (read_spec_file fs repoRoot name)
             = [ExistsSync (path_join [sample_specs_dir repoRoot, name]),
                ReadFileSync (path_join [sample_specs_dir repoRoot, name])]"
    using read_spec_file_returns [of fs repoRoot name c] basename_fix [of name] by blast
  have 4: "fst (read_spec_file fs repoRoot name) = Inr c
        \<and> fs (path_join [sample_specs_dir repoRoot, []]) = Some Dir
        \<and> fs (path_join [sample_specs_dir repoRoot, ''.'']) = Some Dir
        \<and> fs (path_join [sample_specs_dir repoRoot, ''..'']) = Some Dir \<longrightarrow>
         name \<noteq> [] \<and> name \<noteq> ''.'' \<and> name \<noteq> ''..''"
    using read_spec_file_returns [of fs repoRoot name c] by auto
  from 1 2 3 4 show ?thesis by blast
qed

theorem read_spec_file_confined_witness:
  "read_spec_file example_fs ''/app'' ''../../../etc/passwd'' = (Inl Invalid_spec_file_name, [])
   \<and> read_spec_file example_fs ''/app'' ''default_spec.json''
       = (Inr ''{}'',
          [ExistsSync ''/app/otter_py/sample_specs/default_spec.json'',
           ReadFileSync ''/app/otter_py/sample_specs/default_spec.json''])
   \<and> example_fs (path_join [sample_specs_dir ''/app'', []]) = Some Dir
   \<and> example_fs (path_join [sample_specs_dir ''/app'', ''.'']) = Some Dir
   \<and> example_fs (path_join [sample_specs_dir ''/app'', ''..'']) = Some Dir
   \<and> CHR ''/'' \<notin> set ''default_spec.json''
   \<and> CHR ''/'' \<in> set ''../../../etc/passwd''"
proof -
  have e1: "posix_basename ''../../../etc/passwd'' \<noteq> ''../../../etc/passwd''"
    by code_simp
  have e2: "fst (read_spec_file example_fs ''/app'' ''default_spec.json'') = Inr ''{}''"
    by code_simp
  have e3: "path_join [sample_specs_dir ''/app'', ''default_spec.json'']
      = ''/app/otter_py/sample_specs/default_spec.json''"
    by code_simp
  have e4: "example_fs (path_join [sample_specs_dir ''/app'', []]) = Some Dir"
    "example_fs (path_join [sample_specs_dir ''/app'', ''.'']) = Some Dir"
    "example_fs (path_join [sample_specs_dir ''/app'', ''..'']) = Some Dir"
    by code_simp+
  have e5: "CHR ''/'' \<in> set ''../../../etc/passwd''"
    by simp
  from e1 e2 e3 e4 e5
    read_spec_file_confined [of "''../../../etc/passwd''" example_fs "''/app''" "''{}''"]
    read_spec_file_confined [of "''default_spec.json''" example_fs "''/app''" "''{}''"]
  show ?thesis
    by (simp add: prod_eq_iff)
qed

lemma export_loop_eq:
  "export_loop num_str es i (fp, ci) =
     (fp @ map (\<lambda>(j, e). atrim_part num_str j e) (zip [i..<i + length es] es),
      ci @ map concat_input [i..<i + length es])"
proof (induction es arbitrary: i fp ci)
  case Nil
  then show ?case by simp
next
  case (Cons e es)
  have u: "[i..<i + length (e # es)] = i # [i + 1..<(i + 1) + length es]"
    by (simp add: upt_rec)
  show ?case
    unfolding u by (simp add: Cons.IH)
qed

lemma filterComplex_eq:
  "filterComplex num_str es =
     js_join ''; '' (map (\<lambda>(j, e). atrim_part num_str j e) (zip [0..<length es] es))
     @ ''; '' @ concat (map concat_input [0..<length es])
     @ ''concat=n='' @ show_nat (length es) @ '':v=0:a=1[out]''"
  by (simp add: filterComplex_def export_loop_eq)

lemma atrim_parts_ranges:
  "map (\<lambda>(j, e). atrim_part num_str j e) (zip js es)
     = map (\<lambda>(j, r). atrim_part num_str j
              \<lparr>entry_id = [], sourceStart = fst r, sourceEnd = snd r, label = [], muted = False\<rparr>)
         (zip js (map (\<lambda>x. (sourceStart x, sourceEnd x)) es))"
  by (simp add: zip_map2 atrim_part_def split_def)

lemma filterComplex_ranges:
  assumes "map (\<lambda>x. (sourceStart x, sourceEnd x)) es1 = map (\<lambda>x. (sourceStart x, sourceEnd x)) es2"
  shows "filterComplex num_str es1 = filterComplex num_str es2"
proof -
  have len: "length es1 = length es2"
    using assms by (metis length_map)
  have "map (\<lambda>(j, e). atrim_part num_str j e) (zip [0..<length es1] es1)
      = map (\<lambda>(j, e). atrim_part num_str j e) (zip [0..<length es2] es2)"
    unfolding atrim_parts_ranges len assms ..
  then show ?thesis
    unfolding filterComplex_eq len by simp
qed

lemma export_no_segments:
  "non_muted e = [] \<Longrightarrow>
     export_edl_audio num_str dialog ffmpeg (Some e) fs = (Inl No_non_muted_segments, [], fs)"
  by (simp add: export_edl_audio_def Let_def)

lemma export_cancelled:
  "non_muted e \<noteq> [] \<Longrightarrow> canceled dialog \<or> filePath dialog = [] \<Longrightarrow>
     export_edl_audio num_str dialog ffmpeg (Some e) fs = (Inr None, [ShowSaveDialog], fs)"
  by (simp add: export_edl_audio_def Let_def)

lemma export_runs_encoder:
  assumes "non_muted e \<noteq> []" and "\<not> canceled dialog" and "filePath dialog \<noteq> []"
  shows "\<exists>r. export_edl_audio num_str dialog ffmpeg (Some e) fs =
           (r, [ShowSaveDialog,
                Spawn_ffmpeg (export_args (sourceFile e) (filterComplex num_str (non_muted e))
                                (filePath dialog))],
            snd (ffmpeg (export_args (sourceFile e) (filterComplex num_str (non_muted e))
                           (filePath dialog)) fs))"
  using assms
  by (auto simp: export_edl_audio_def Let_def split: prod.splits child_end.splits)

lemma export_success:
  assumes "non_muted e \<noteq> []" and "\<not> canceled dialog" and "filePath dialog \<noteq> []"
    and "ffmpeg (export_args (sourceFile e) (filterComplex num_str (non_muted e))
                   (filePath dialog)) fs = (Child_close (Some 0), fs')"
  shows "export_edl_audio num_str dialog ffmpeg (Some e) fs =
           (Inr (Some (filePath dialog)),
            [ShowSaveDialog,
             Spawn_ffmpeg (export_args (sourceFile e) (filterComplex num_str (non_muted e))
                             (filePath dialog))],
            fs')"
  using assms by (simp add: export_edl_audio_def Let_def)

text \<open>
  C1, as stated, fails on an EDL without segments: the export throws
  \<open>No non-muted segments to export.\<close> before it shows the dialog or starts the encoder,
  so there is no empty output.
\<close>

theorem export_zero_segments_counterexample:
  "export_edl_audio example_num_str example_dialog writing_encoder (Some empty_edl) audio_fs
     = (Inl No_non_muted_segments, [], audio_fs)"
  by (simp add: export_edl_audio_def non_muted_def empty_edl_def Let_def)

text \<open>
  C1, amended. For every EDL with at least one non-muted segment, an export whose dialog
  gives a path and whose encoder ends with code \<open>0\<close> returns that path after one encoder
  run, and the filter of that run asks for exactly the non-muted segments in EDL order:
  one trim \<open>[sourceStart, sourceEnd)\<close> per segment, then the concatenation of all of
  them, that is a total of \<open>D = \<Sigma> (sourceEnd - sourceStart)\<close>; the decoded duration is
  the encoder's to deliver. An EDL with zero non-muted segments makes the export throw,
  with no dialog, no encoder run and no output.
\<close>

theorem export_requests_non_muted_segments:
  "(non_muted e \<noteq> [] \<and> \<not> canceled dialog \<and> filePath dialog \<noteq> []
      \<and> ffmpeg (export_args (sourceFile e) (filterComplex num_str (non_muted e))
                  (filePath dialog)) fs = (Child_close (Some 0), fs')
     \<longrightarrow> export_edl_audio num_str dialog ffmpeg (Some e) fs =
           (Inr (Some (filePath dialog)),
            [ShowSaveDialog,
             Spawn_ffmpeg (export_args (sourceFile e) (filterComplex num_str (non_muted e))
                             (filePath dialog))],
            fs')
         \<and> filterComplex num_str (non_muted e) =
             js_join ''; ''
               (map (\<lambda>(i, x). ''[0]atrim=start='' @ num_str (sourceStart x) @ '':end=''
                       @ num_str (sourceEnd x) @ '',asetpts=PTS-STARTPTS[a'' @ show_nat i @ '']'')
                  (zip [0..<length (non_muted e)] (non_muted e)))
             @ ''; '' @ concat (map (\<lambda>i. ''[a'' @ show_nat i @ '']'') [0..<length (non_muted e)])
             @ ''concat=n='' @ show_nat (length (non_muted e)) @ '':v=0:a=1[out]'')
   \<and> (non_muted e = []
     \<longrightarrow> export_edl_audio num_str dialog ffmpeg (Some e) fs = (Inl No_non_muted_segments, [], fs))"
proof -
  have f: "filterComplex num_str es =
             js_join ''; ''
               (map (\<lambda>(i, x). ''[0]atrim=start='' @ num_str (sourceStart x) @ '':end=''
                       @ num_str (sourceEnd x) @ '',asetpts=PTS-STARTPTS[a'' @ show_nat i @ '']'')
                  (zip [0..<length es] es))
             @ ''; '' @ concat (map (\<lambda>i. ''[a'' @ show_nat i @ '']'') [0..<length es])
             @ ''concat=n='' @ show_nat (length es) @ '':v=0:a=1[out]''" for es
    unfolding filterComplex_eq atrim_part_def concat_input_def ..
  show ?thesis
    using export_success [of e dialog ffmpeg num_str fs fs'] export_no_segments [of e num_str dialog ffmpeg fs]
      f [of "non_muted e"]
    by blast
qed

theorem export_requests_non_muted_segments_witness:
  "non_muted example_edl \<noteq> [] \<and> \<not> canceled example_dialog \<and> filePath example_dialog \<noteq> []
   \<and> fst (writing_encoder
        (export_args (sourceFile example_edl) (filterComplex example_num_str (non_muted example_edl))
           (filePath example_dialog)) audio_fs) = Child_close (Some 0)
   \<and> fst (export_edl_audio example_num_str example_dialog writing_encoder (Some example_edl) audio_fs)
       = Inr (Some ''/audio/export.wav'')
   \<and> filterComplex example_num_str (non_muted example_edl)
       = ''[0]atrim=start=0:end=1.2,asetpts=PTS-STARTPTS[a0]; [0]atrim=start=3.1:end=12,asetpts=PTS-STARTPTS[a1]; [a0][a1]concat=n=2:v=0:a=1[out]''
   \<and> non_muted empty_edl = []
   \<and> fst (export_edl_audio example_num_str example_dialog writing_encoder (Some empty_edl) audio_fs)
       = Inl No_non_muted_segments"
proof -
  have a: "non_muted example_edl \<noteq> []" "\<not> canceled example_dialog" "filePath example_dialog \<noteq> []"
    by (simp_all add: non_muted_def example_edl_def example_entries_def example_dialog_def)
  have b: "writing_encoder
        (export_args (sourceFile example_edl) (filterComplex example_num_str (non_muted example_edl))
           (filePath example_dialog)) audio_fs
       = (Child_close (Some 0), audio_fs(''/audio/export.wav'' \<mapsto> File ''RIFF-WAVE''))"
    by (simp add: writing_encoder_def export_args_def example_dialog_def)
  have c: "filterComplex example_num_str (non_muted example_edl)
       = ''[0]atrim=start=0:end=1.2,asetpts=PTS-STARTPTS[a0]; [0]atrim=start=3.1:end=12,asetpts=PTS-STARTPTS[a1]; [a0][a1]concat=n=2:v=0:a=1[out]''"
    by code_simp
  have d: "non_muted empty_edl = []"
    by (simp add: non_muted_def empty_edl_def)
  from a b c d
    export_requests_non_muted_segments [of example_edl example_dialog writing_encoder example_num_str
      audio_fs "audio_fs(''/audio/export.wav'' \<mapsto> File ''RIFF-WAVE'')"]
    export_requests_non_muted_segments [of empty_edl example_dialog writing_encoder example_num_str
      audio_fs audio_fs]
  show ?thesis
    by (simp add: example_dialog_def)
qed

text \<open>
  C4. Export is deterministic in the EDL's entries: two export runs whose EDLs have the
  same non-muted segment boundaries, in the same order (as two EDLs with identical
  entries have), hand the encoder the same filter, that is the same trim ranges in the
  same concatenation order, whatever the other fields of the EDL, the path chosen in the
  dialog, the encoder's behaviour and the file system are. Both runs are taken to pass the
  dialog, or both to be cancelled there.
\<close>

theorem export_filter_deterministic:
  assumes "map (\<lambda>x. (sourceStart x, sourceEnd x)) (non_muted e1)
         = map (\<lambda>x. (sourceStart x, sourceEnd x)) (non_muted e2)"
    and "(canceled d1 \<or> filePath d1 = []) = (canceled d2 \<or> filePath d2 = [])"
  shows "filter_args (fst (snd (export_edl_audio num_str d1 ffmpeg1 (Some e1) fs1)))
       = filter_args (fst (snd (export_edl_audio num_str d2 ffmpeg2 (Some e2) fs2)))"
proof (cases "non_muted e1 = []")
  case True
  with assms(1) have "non_muted e2 = []" by simp
  with True show ?thesis
    by (simp add: export_no_segments)
next
  case False
  with assms(1) have ne2: "non_muted e2 \<noteq> []" by auto
  have fc: "filterComplex num_str (non_muted e1) = filterComplex num_str (non_muted e2)"
    using assms(1) by (rule filterComplex_ranges)
  show ?thesis
  proof (cases "canceled d1 \<or> filePath d1 = []")
    case True
    with assms(2) have "canceled d2 \<or> filePath d2 = []" by simp
    with True False ne2 show ?thesis
      by (simp add: export_cancelled)
  next
    case c1: False
    with assms(2) have c2: "\<not> (canceled d2 \<or> filePath d2 = [])" by simp
    from export_runs_encoder [of e1 d1 num_str ffmpeg1 fs1] False c1
    have r1: "fst (snd (export_edl_audio num_str d1 ffmpeg1 (Some e1) fs1))
        = [ShowSaveDialog,
           Spawn_ffmpeg (export_args (sourceFile e1) (filterComplex num_str (non_muted e1))
                           (filePath d1))]"
      by auto
    from export_runs_encoder [of e2 d2 num_str ffmpeg2 fs2] ne2 c2
    have r2: "fst (snd (export_edl_audio num_str d2 ffmpeg2 (Some e2) fs2))
        = [ShowSaveDialog,
           Spawn_ffmpeg (export_args (sourceFile e2) (filterComplex num_str (non_muted e2))
                           (filePath d2))]"
      by auto
    show ?thesis
      unfolding r1 r2 by (simp add: export_args_def fc)
  qed
qed

theorem export_filter_deterministic_witness:
  "map (\<lambda>x. (sourceStart x, sourceEnd x)) (non_muted example_edl)
     = map (\<lambda>x. (sourceStart x, sourceEnd x)) (non_muted relabelled_edl)
   \<and> (canceled example_dialog \<or> filePath example_dialog = [])
       = (canceled other_dialog \<or> filePath other_dialog = [])
   \<and> filter_args (fst (snd (export_edl_audio example_num_str example_dialog writing_encoder
          (Some example_edl) audio_fs)))
       = filter_args (fst (snd (export_edl_audio example_num_str other_dialog killed_encoder
          (Some relabelled_edl) project_fs)))
   \<and> filter_args (fst (snd (export_edl_audio example_num_str example_dialog writing_encoder
          (Some example_edl) audio_fs)))
       = [''[0]atrim=start=0:end=1.2,asetpts=PTS-STARTPTS[a0]; [0]atrim=start=3.1:end=12,asetpts=PTS-STARTPTS[a1]; [a0][a1]concat=n=2:v=0:a=1[out]'']"
proof -
  have a: "map (\<lambda>x. (sourceStart x, sourceEnd x)) (non_muted example_edl)
     = map (\<lambda>x. (sourceStart x, sourceEnd x)) (non_muted relabelled_edl)"
    by (simp add: non_muted_def example_edl_def example_entries_def relabelled_edl_def)
  have b: "(canceled example_dialog \<or> filePath example_dialog = [])
       = (canceled other_dialog \<or> filePath other_dialog = [])"
    by (simp add: example_dialog_def other_dialog_def)
  have c: "filter_args (fst (snd (export_edl_audio example_num_str example_dialog writing_encoder
          (Some example_edl) audio_fs)))
       = [''[0]atrim=start=0:end=1.2,asetpts=PTS-STARTPTS[a0]; [0]atrim=start=3.1:end=12,asetpts=PTS-STARTPTS[a1]; [a0][a1]concat=n=2:v=0:a=1[out]'']"
    by code_simp
  from export_filter_deterministic [OF a b, of example_num_str writing_encoder audio_fs
      killed_encoder project_fs] a b c
  show ?thesis by simp
qed

lemma load_edl_returns_content:
  "fs p = Some (File c) \<Longrightarrow>
     load_edl \<lparr>open_canceled = False, filePaths = p # ps\<rparr> fs
       = (Inr (Some (p, c)), [ShowOpenDialog, Fs_readFileSync p])"
  by (simp add: load_edl_def readFileSync_def Let_def)

lemma non_muted_version: "non_muted (e\<lparr>version := v\<rparr>) = non_muted e"
  by (simp add: non_muted_def)

lemma export_ignores_version:
  "export_edl_audio num_str dialog ffmpeg (Some (e\<lparr>version := v\<rparr>)) fs
     = export_edl_audio num_str dialog ffmpeg (Some e) fs"
  by (simp add: export_edl_audio_def non_muted_version Let_def)

text \<open>
  C5, as stated, fails: nothing checks the schema version. A file whose version is
  \<open>99\<close> is loaded, its content returned as it is, and an EDL of version \<open>99\<close> is
  exported like any other.
\<close>

theorem load_unsupported_version_counterexample:
  "load_edl v99_dialog project_fs
     = (Inr (Some (''/projects/v99.otter-edl.json'', v99_text)),
        [ShowOpenDialog, Fs_readFileSync ''/projects/v99.otter-edl.json''])
   \<and> fst (export_edl_audio example_num_str example_dialog writing_encoder
            (Some (example_edl\<lparr>version := 99\<rparr>)) audio_fs)
       = Inr (Some ''/audio/export.wav'')"
proof -
  have "load_edl v99_dialog project_fs
     = (Inr (Some (''/projects/v99.otter-edl.json'', v99_text)),
        [ShowOpenDialog, Fs_readFileSync ''/projects/v99.otter-edl.json''])"
    by (simp add: load_edl_def v99_dialog_def project_fs_def readFileSync_def Let_def)
  moreover have "fst (export_edl_audio example_num_str example_dialog writing_encoder
            (Some (example_edl\<lparr>version := 99\<rparr>)) audio_fs)
       = Inr (Some ''/audio/export.wav'')"
    by (simp add: export_edl_audio_def non_muted_def example_edl_def example_entries_def
        example_dialog_def writing_encoder_def Let_def)
  ultimately show ?thesis by simp
qed

text \<open>
  C5, amended. Loading performs no validation: for every chosen file, \<open>load-edl\<close> returns
  the path and the raw content of the file, whatever the content is (and \<open>null\<close> when
  the dialog is cancelled or gives no path); neither a schema version nor the integrity of
  the content is checked, and no document is constructed. The export handler parses the
  EDL and never looks at its version: the export of an EDL is the same for every version.
\<close>

theorem load_and_export_do_not_validate:
  "(fs p = Some (File c) \<longrightarrow>
       load_edl \<lparr>open_canceled = False, filePaths = p # ps\<rparr> fs
         = (Inr (Some (p, c)), [ShowOpenDialog, Fs_readFileSync p]))
   \<and> (open_canceled d \<or> filePaths d = [] \<longrightarrow> load_edl d fs = (Inr None, [ShowOpenDialog]))
   \<and> export_edl_audio num_str dialog ffmpeg (Some (e\<lparr>version := v\<rparr>)) fs'
       = export_edl_audio num_str dialog ffmpeg (Some e) fs'"
  using load_edl_returns_content [of fs p c ps]
    export_ignores_version [of num_str dialog ffmpeg v e fs']
  by (auto simp: load_edl_def)

theorem load_and_export_do_not_validate_witness:
  "project_fs ''/projects/v99.otter-edl.json'' = Some (File v99_text)
   \<and> fst (load_edl \<lparr>open_canceled = False, filePaths = [''/projects/v99.otter-edl.json'']\<rparr>
        project_fs) = Inr (Some (''/projects/v99.otter-edl.json'', v99_text))
   \<and> load_edl \<lparr>open_canceled = True, filePaths = []\<rparr> project_fs = (Inr None, [ShowOpenDialog])
   \<and> fst (export_edl_audio example_num_str example_dialog writing_encoder
            (Some (example_edl\<lparr>version := 2\<rparr>)) audio_fs)
       = fst (export_edl_audio example_num_str example_dialog writing_encoder
            (Some example_edl) audio_fs)"
  using load_and_export_do_not_validate [of project_fs "''/projects/v99.otter-edl.json''"
      v99_text "[]" "\<lparr>open_canceled = True, filePaths = []\<rparr>" example_num_str example_dialog
      writing_encoder 2 example_edl audio_fs]
  by (simp add: project_fs_def)

text \<open>
  C2. Every export is to read the source audio file only and to write a separate output
  file chosen by the user, so that the source audio file's contents are never modified.
  The handler does not see to it: it gives the encoder the chosen path as output, with
  overwriting enabled (\<open>-y\<close>), and never compares it with the source. Here the EDL
  names its source \<open>/audio/./talk.wav\<close> and the user chooses \<open>/audio/talk.wav\<close>: two
  spellings of one file. The encoder is started on them, and the file it writes is the
  source.
\<close>

theorem export_overwrites_aliased_source:
  "sourceFile alias_edl = ''/audio/./talk.wav''
   \<and> filePath overwrite_dialog = ''/audio/talk.wav''
   \<and> posix_normalize (sourceFile alias_edl) = posix_normalize (filePath overwrite_dialog)
   \<and> fst (snd (export_edl_audio example_num_str overwrite_dialog resolving_encoder
                 (Some alias_edl) audio_fs))
       = [ShowSaveDialog,
          Spawn_ffmpeg
            [''-hide_banner'', ''-y'', ''-i'', ''/audio/./talk.wav'', ''-filter_complex'',
             ''[0]atrim=start=0:end=1.2,asetpts=PTS-STARTPTS[a0]; [0]atrim=start=3.1:end=12,asetpts=PTS-STARTPTS[a1]; [a0][a1]concat=n=2:v=0:a=1[out]'',
             ''-map'', ''[out]'', ''-c:a'', ''pcm_s16le'', ''/audio/talk.wav'']]
   \<and> fst (export_edl_audio example_num_str overwrite_dialog resolving_encoder
            (Some alias_edl) audio_fs) = Inr (Some ''/audio/talk.wav'')
   \<and> audio_fs (posix_normalize (sourceFile alias_edl)) = Some (File ''RIFF-source'')
   \<and> snd (snd (export_edl_audio example_num_str overwrite_dialog resolving_encoder
                 (Some alias_edl) audio_fs)) (posix_normalize (sourceFile alias_edl))
       = Some (File ''RIFF-WAVE'')"
  by code_simp

lemma export_failure_keeps_encoder_fs:
  assumes "non_muted e \<noteq> []" and "\<not> canceled dialog" and "filePath dialog \<noteq> []"
    and "ffmpeg (export_args (sourceFile e) (filterComplex num_str (non_muted e))
                   (filePath dialog)) fs = (Child_close code, fs')"
    and "code \<noteq> Some 0"
  shows "export_edl_audio num_str dialog ffmpeg (Some e) fs =
           (Inl (Ffmpeg_export_failed code),
            [ShowSaveDialog,
             Spawn_ffmpeg (export_args (sourceFile e) (filterComplex num_str (non_muted e))
                             (filePath dialog))],
            fs')"
  using assms by (simp add: export_edl_audio_def Let_def)

lemma close_by_signal_rejects:
  "\<exists>err. promise_result (snd (transcribe_on_close JSON_parse None (Some s) stdout stderr st))
            = Some (Reject err)"
  by (cases s) (simp_all add: transcribe_on_close_def promise_result_def)

text \<open>
  C6, as stated, fails for export: the export handler has no cancellation and no cleanup.
  When the encoder is ended by a signal in the middle of its work, the handler only
  rejects, and the partial file the encoder wrote stays at the destination path.
\<close>

theorem export_killed_leaves_partial_file_counterexample:
  "fst (export_edl_audio example_num_str example_dialog killed_encoder (Some example_edl) audio_fs)
     = Inl (Ffmpeg_export_failed None)
   \<and> snd (snd (export_edl_audio example_num_str example_dialog killed_encoder
                 (Some example_edl) audio_fs)) ''/audio/export.wav''
       = Some (File ''RIFF-partial'')"
  by (simp add: export_edl_audio_def non_muted_def example_edl_def example_entries_def
      example_dialog_def killed_encoder_def export_args_def Let_def)

text \<open>
  C6, amended. Cancelling a transcription sends \<open>SIGTERM\<close> to the active transcription
  child, once, and to nothing when no transcription runs. When that child closes on a
  signal, its handle is released (\<open>activeProcess\<close> is null) and the request is rejected:
  no transcript, partial or whole, is delivered. An export cannot be cancelled: the
  handler keeps no handle on the encoder, and when the encoder ends with anything but
  exit code \<open>0\<close> the handler rejects and leaves the file system as the encoder left it,
  partial output included.
\<close>

theorem cancellation_behaviour:
  "cancel_transcription kill \<lparr>activeProcess = Some child\<rparr> = (kill child SIGTERM, [(child, SIGTERM)])
   \<and> cancel_transcription kill \<lparr>activeProcess = None\<rparr> = (False, [])
   \<and> activeProcess (fst (transcribe_on_close JSON_parse None (Some s) stdout stderr st)) = None
   \<and> (\<exists>err. promise_result (snd (transcribe_on_close JSON_parse None (Some s) stdout stderr st))
              = Some (Reject err))
   \<and> (non_muted e \<noteq> [] \<and> \<not> canceled dialog \<and> filePath dialog \<noteq> []
        \<and> ffmpeg (export_args (sourceFile e) (filterComplex num_str (non_muted e))
                    (filePath dialog)) fs = (Child_close code, fs')
        \<and> code \<noteq> Some 0
       \<longrightarrow> export_edl_audio num_str dialog ffmpeg (Some e) fs =
             (Inl (Ffmpeg_export_failed code),
              [ShowSaveDialog,
               Spawn_ffmpeg (export_args (sourceFile e) (filterComplex num_str (non_muted e))
                               (filePath dialog))],
              fs'))"
proof -
  have 1: "cancel_transcription kill \<lparr>activeProcess = Some child\<rparr>
      = (kill child SIGTERM, [(child, SIGTERM)])"
    by (simp add: cancel_transcription_def)
  have 2: "cancel_transcription kill \<lparr>activeProcess = None\<rparr> = (False, [])"
    by (simp add: cancel_transcription_def)
  have 3: "activeProcess (fst (transcribe_on_close JSON_parse None (Some s) stdout stderr st)) = None"
    by (simp add: transcribe_on_close_def)
  from 1 2 3 close_by_signal_rejects [of JSON_parse s stdout stderr st]
    export_failure_keeps_encoder_fs [of e dialog ffmpeg num_str fs code fs']
  show ?thesis by blast
qed

theorem cancellation_behaviour_witness:
  "cancel_transcription always_delivered (transcribe_spawn 4711 \<lparr>activeProcess = None\<rparr>)
     = (True, [(4711, SIGTERM)])
   \<and> transcribe_on_close no_json None (Some SIGTERM) ''[{'' ''Killed'' \<lparr>activeProcess = Some 4711\<rparr>
       = (\<lparr>activeProcess = None\<rparr>, [Reject (Transcribe_exited None ''Killed'')])
   \<and> non_muted example_edl \<noteq> [] \<and> \<not> canceled example_dialog \<and> filePath example_dialog \<noteq> []
   \<and> fst (killed_encoder
        (export_args (sourceFile example_edl) (filterComplex example_num_str (non_muted example_edl))
           (filePath example_dialog)) audio_fs) = Child_close None
   \<and> fst (export_edl_audio example_num_str example_dialog killed_encoder (Some example_edl) audio_fs)
       = Inl (Ffmpeg_export_failed None)"
proof -
  have a: "non_muted example_edl \<noteq> []" "\<not> canceled example_dialog" "filePath example_dialog \<noteq> []"
    by (simp_all add: non_muted_def example_edl_def example_entries_def example_dialog_def)
  have b: "killed_encoder
        (export_args (sourceFile example_edl) (filterComplex example_num_str (non_muted example_edl))
           (filePath example_dialog)) audio_fs
       = (Child_close None, audio_fs(''/audio/export.wav'' \<mapsto> File ''RIFF-partial''))"
    by (simp add: killed_encoder_def export_args_def example_dialog_def)
  have c: "transcribe_on_close no_json None (Some SIGTERM) ''[{'' ''Killed'' \<lparr>activeProcess = Some 4711\<rparr>
       = (\<lparr>activeProcess = None\<rparr>, [Reject (Transcribe_exited None ''Killed'')])"
    by (simp add: transcribe_on_close_def)
  have d: "transcribe_spawn 4711 \<lparr>activeProcess = None\<rparr> = \<lparr>activeProcess = Some 4711\<rparr>"
    by (simp add: transcribe_spawn_def)
  from a b c d
    cancellation_behaviour [of always_delivered 4711 no_json SIGTERM "''[{''" "''Killed''"
      "\<lparr>activeProcess = Some 4711\<rparr>" example_edl example_dialog killed_encoder example_num_str
      audio_fs None "audio_fs(''/audio/export.wav'' \<mapsto> File ''RIFF-partial'')"]
  show ?thesis
    by (simp add: always_delivered_def cancel_transcription_def)
qed






















end
